theory Spec2Isabelle
  imports Complex_Main
begin

section \<open>Bounding boxes of rendered objects (blender\_render\_labeling.py)\<close>

text \<open>
  The script projects the vertices of a mesh into the image plane of a camera, takes
  the extent of the projected coordinates as a box, converts the box to pixels and
  writes one label line per visible box. Python floats are modelled as the reals:
  every statement below is about exact arithmetic, rounding is outside the model.
  Python exceptions are values of the type \<open>error\<close>; a function that may raise returns
  \<open>error + 'a\<close> with \<open>Inl\<close> for the exception.
\<close>

datatype error = ZeroDivisionError | ValueError | AttributeError

subsection \<open>The class Box (lines 35 to 70)\<close>

record Box =
  min_x :: real
  min_y :: real
  max_x :: real
  max_y :: real
  dim_x :: real
  dim_y :: real

text \<open>The properties \<open>x\<close>, \<open>y\<close>, \<open>width\<close> and \<open>height\<close> of the class.\<close>

definition Box_x :: "Box \<Rightarrow> real" where
  "Box_x b = min_x b * dim_x b"

definition Box_y :: "Box \<Rightarrow> real" where
  "Box_y b = dim_y b - max_y b * dim_y b"

definition Box_width :: "Box \<Rightarrow> real" where
  "Box_width b = (max_x b - min_x b) * dim_x b"

definition Box_height :: "Box \<Rightarrow> real" where
  "Box_height b = (max_y b - min_y b) * dim_y b"

definition to_tuple :: "Box \<Rightarrow> real \<times> real \<times> real \<times> real" where
  "to_tuple b =
     (if Box_width b = 0 \<or> Box_height b = 0 then (0, 0, 0, 0)
      else (Box_x b, Box_y b, Box_width b, Box_height b))"

subsection \<open>clamp (lines 149 to 150)\<close>

definition clamp :: "real \<Rightarrow> real \<Rightarrow> real \<Rightarrow> real" where
  "clamp v minimum maximum = max minimum (min v maximum)"

subsection \<open>normalize (lines 162 to 175)\<close>

text \<open>
  \<open>data\<close> is the tuple \<open>(x, y, width, height)\<close>. The divisions by 2 cannot fail;
  a division by a frame dimension that is zero raises \<open>ZeroDivisionError\<close>, and the
  four assignments run in the order of the source.
\<close>

definition normalize ::
  "real \<times> real \<times> real \<times> real \<Rightarrow> real \<Rightarrow> real \<Rightarrow> error + (real \<times> real \<times> real \<times> real)" where
  "normalize data frame_width frame_height =
     (case data of (d0, d1, d2, d3) \<Rightarrow>
        if frame_width = 0 then Inl ZeroDivisionError
        else if frame_height = 0 then Inl ZeroDivisionError
        else Inr ((d0 + d2 / 2) / frame_width,
                  (d1 + d3 / 2) / frame_height,
                  d2 / frame_width,
                  d3 / frame_height))"

text \<open>
  The inverse that the specification describes for the round trip; the script itself
  has no such function. Each normalised value is multiplied by its frame dimension and
  the top-left corner is taken back from the centre.
\<close>

definition denormalize ::
  "real \<times> real \<times> real \<times> real \<Rightarrow> real \<Rightarrow> real \<Rightarrow> real \<times> real \<times> real \<times> real" where
  "denormalize lab frame_width frame_height =
     (case lab of (x_center, y_center, w, h) \<Rightarrow>
        (x_center * frame_width - (w * frame_width) / 2,
         y_center * frame_height - (h * frame_height) / 2,
         w * frame_width,
         h * frame_height))"

subsection \<open>Exceptions in sequence\<close>

definition bindE :: "error + 'a \<Rightarrow> ('a \<Rightarrow> error + 'b) \<Rightarrow> error + 'b" where
  "bindE m f = (case m of Inl e \<Rightarrow> Inl e | Inr v \<Rightarrow> f v)"

text \<open>Division of floats: Python raises on a zero divisor.\<close>

definition py_div :: "real \<Rightarrow> real \<Rightarrow> error + real" where
  "py_div a b = (if b = 0 then Inl ZeroDivisionError else Inr (a / b))"

text \<open>The builtins \<open>max\<close> and \<open>min\<close> on a list: \<open>ValueError\<close> on the empty list.\<close>

fun py_max :: "real list \<Rightarrow> error + real" where
  "py_max [] = Inl ValueError"
| "py_max (v # vs) = Inr (fold max vs v)"

fun py_min :: "real list \<Rightarrow> error + real" where
  "py_min [] = Inl ValueError"
| "py_min (v # vs) = Inr (fold min vs v)"

subsection \<open>Vectors, camera and render settings of the engine\<close>

text \<open>
  What the script reads from Blender is taken as data: a vector with its three
  components, the camera's \<open>type\<close> and the four corners that \<open>view_frame\<close> returns,
  and the three render settings. The mesh is the list of its vertex coordinates after
  the two calls of \<open>me.transform\<close> (lines 95 and 96), that is in camera space.
\<close>

datatype Vector = Vector (vx: real) (vy: real) (vz: real)

definition vec_neg :: "Vector \<Rightarrow> Vector" where
  "vec_neg v = Vector (- vx v) (- vy v) (- vz v)"

text \<open>A vector divided by a scalar; \<open>mathutils\<close> raises on a zero scalar.\<close>

definition vec_div :: "Vector \<Rightarrow> real \<Rightarrow> error + Vector" where
  "vec_div v s =
     (if s = 0 then Inl ZeroDivisionError else Inr (Vector (vx v / s) (vy v / s) (vz v / s)))"

datatype camera_type = PERSP | ORTHO | PANO

record Camera =
  type :: camera_type
  view_frame :: "Vector \<times> Vector \<times> Vector \<times> Vector"

record RenderSettings =
  resolution_x :: int
  resolution_y :: int
  resolution_percentage :: int

type_synonym frame = "Vector \<times> Vector \<times> Vector"

subsection \<open>camera\_view\_bounds\_2d (lines 73 to 146)\<close>

text \<open>Line 114: every corner \<open>v\<close> of the frame becomes \<open>v / (v.z / z)\<close>.\<close>

definition rescale_corner :: "Vector \<Rightarrow> real \<Rightarrow> error + Vector" where
  "rescale_corner v z = bindE (py_div (vz v) z) (\<lambda>s. vec_div v s)"

definition rescale_frame :: "frame \<Rightarrow> real \<Rightarrow> error + frame" where
  "rescale_frame fr z =
     (case fr of (f0, f1, f2) \<Rightarrow>
        bindE (rescale_corner f0 z) (\<lambda>g0.
        bindE (rescale_corner f1 z) (\<lambda>g1.
        bindE (rescale_corner f2 z) (\<lambda>g2. Inr (g0, g1, g2)))))"

text \<open>
  Lines 106 to 122 of the loop body, on the state \<open>(frame, lx, ly)\<close> of the loop. At
  depth zero under a perspective camera the branch of line 110 appends 0.5 to both
  lists and skips the rescaling; the body then goes on to line 116 all the same, takes
  the fractions of the vertex in the frame as it stands and appends them too.
\<close>

definition project_vertex ::
  "bool \<Rightarrow> frame \<Rightarrow> real list \<Rightarrow> real list \<Rightarrow> Vector
     \<Rightarrow> error + (frame \<times> real list \<times> real list)" where
  "project_vertex camera_persp fr lx ly co_local =
     (let z = - vz co_local in
      bindE
        (if camera_persp then
           (if z = 0 then Inr (fr, lx @ [0.5], ly @ [0.5])
            else bindE (rescale_frame fr z) (\<lambda>fr1. Inr (fr1, lx, ly)))
         else Inr (fr, lx, ly))
        (\<lambda>(fr1, lx1, ly1).
           case fr1 of (f0, f1, f2) \<Rightarrow>
             let lo_x = vx f1; hi_x = vx f2; lo_y = vy f0; hi_y = vy f1 in
             bindE (py_div (vx co_local - lo_x) (hi_x - lo_x)) (\<lambda>u.
             bindE (py_div (vy co_local - lo_y) (hi_y - lo_y)) (\<lambda>v.
               Inr (fr1, lx1 @ [u], ly1 @ [v])))))"

text \<open>The three tests that set \<open>bad_bbox\<close>: line 127, and lines 129 and 131.\<close>

definition center_on_corner :: "real \<Rightarrow> real \<Rightarrow> bool" where
  "center_on_corner center_x center_y =
     ((center_x = 0 \<or> center_x = 1) \<and> (center_y = 0 \<or> center_y = 1))"

definition straddles :: "real \<Rightarrow> real \<Rightarrow> bool" where
  "straddles lo hi = (lo \<le> 0 \<and> hi \<ge> 1)"

text \<open>
  Lines 123 to 146: the box of the accumulated lists. The first expression
  evaluated is \<open>max(lx)\<close>, then \<open>min(lx)\<close>, \<open>max(ly)\<close> and \<open>min(ly)\<close>.
\<close>

definition view_box :: "RenderSettings \<Rightarrow> real list \<Rightarrow> real list \<Rightarrow> error + Box" where
  "view_box r lx ly =
     bindE (py_max lx) (\<lambda>max_lx.
     bindE (py_min lx) (\<lambda>min_lx.
     bindE (py_max ly) (\<lambda>max_ly.
     bindE (py_min ly) (\<lambda>min_ly.
       let center_x = clamp ((max_lx + min_lx) / 2) 0 1;
           center_y = clamp ((max_ly + min_ly) / 2) 0 1;
           bad_bbox = (center_on_corner center_x center_y
                       \<or> straddles min_lx max_lx \<or> straddles min_ly max_ly);
           fac = real_of_int (resolution_percentage r) * 0.01;
           dx = real_of_int (resolution_x r) * fac;
           dy = real_of_int (resolution_y r) * fac
       in if bad_bbox
          then Inr \<lparr>min_x = 0, min_y = 0, max_x = 0, max_y = 0, dim_x = dx, dim_y = dy\<rparr>
          else Inr \<lparr>min_x = clamp min_lx 0 1, min_y = clamp min_ly 0 1,
                    max_x = clamp max_lx 0 1, max_y = clamp max_ly 0 1,
                    dim_x = dx, dim_y = dy\<rparr>))))"

text \<open>
  The loop of line 105. The \<open>return\<close> of line 146 stands inside the loop body, so the
  body runs for the first vertex only and the remaining vertices are never read; on a
  mesh without vertices the function falls off its end and returns \<open>None\<close>.
\<close>

fun vertex_loop ::
  "RenderSettings \<Rightarrow> bool \<Rightarrow> frame \<Rightarrow> real list \<Rightarrow> real list \<Rightarrow> Vector list
     \<Rightarrow> error + Box option" where
  "vertex_loop r camera_persp fr lx ly [] = Inr None"
| "vertex_loop r camera_persp fr lx ly (co_local # rest) =
     bindE (project_vertex camera_persp fr lx ly co_local) (\<lambda>(fr1, lx1, ly1).
     bindE (view_box r lx1 ly1) (\<lambda>b. Inr (Some b)))"

definition camera_view_bounds_2d ::
  "RenderSettings \<Rightarrow> Camera \<Rightarrow> Vector list \<Rightarrow> error + Box option" where
  "camera_view_bounds_2d r camera me =
     (case view_frame camera of (c0, c1, c2, c3) \<Rightarrow>
        vertex_loop r (type camera \<noteq> ORTHO) (vec_neg c0, vec_neg c1, vec_neg c2) [] [] me)"

subsection \<open>write\_bounds\_2d (lines 153 to 159)\<close>

definition count_nonzero :: "real \<times> real \<times> real \<times> real \<Rightarrow> nat" where
  "count_nonzero t = (case t of (a, b, c, d) \<Rightarrow> length (filter (\<lambda>v. v \<noteq> 0) [a, b, c, d]))"

text \<open>Lines 156 to 159: the tuple, or \<open>None\<close> when all its components are zero.\<close>

definition nonzero_or_None ::
  "real \<times> real \<times> real \<times> real \<Rightarrow> (real \<times> real \<times> real \<times> real) option" where
  "nonzero_or_None box = (if count_nonzero box \<noteq> 0 then Some box else None)"

text \<open>Calling \<open>to_tuple\<close> on the \<open>None\<close> of an empty mesh raises \<open>AttributeError\<close>.\<close>

definition write_bounds_2d ::
  "RenderSettings \<Rightarrow> Camera \<Rightarrow> Vector list
     \<Rightarrow> error + (real \<times> real \<times> real \<times> real) option" where
  "write_bounds_2d r camera me =
     bindE (camera_view_bounds_2d r camera me) (\<lambda>res.
       case res of
         None \<Rightarrow> Inl AttributeError
       | Some b \<Rightarrow> Inr (nonzero_or_None (to_tuple b)))"

subsection \<open>The label loop of main (lines 323 to 344)\<close>

text \<open>
  How Python prints a float is not modelled: \<open>repr\<close> is a parameter. Line 337 builds
  the label line from the four normalised values.
\<close>

definition label_line :: "(real \<Rightarrow> string) \<Rightarrow> real \<times> real \<times> real \<times> real \<Rightarrow> string" where
  "label_line repr lab =
     (case lab of (x_center, y_center, w, h) \<Rightarrow>
        ''0 '' @ repr x_center @ '' '' @ repr y_center @ '' '' @ repr w @ '' '' @ repr h
          @ [CHR 0x0A])"

text \<open>
  Lines 331 to 337 for one labeled object: a tuple is true in the test of line 335,
  \<open>None\<close> is false. The frame size is the resolution of the scene (lines 323, 324).
\<close>

definition label_object ::
  "(real \<Rightarrow> string) \<Rightarrow> RenderSettings \<Rightarrow> Camera \<Rightarrow> Vector list \<Rightarrow> string \<Rightarrow> error + string" where
  "label_object repr r camera me all_data =
     bindE (write_bounds_2d r camera me) (\<lambda>data.
       case data of
         None \<Rightarrow> Inr all_data
       | Some d \<Rightarrow>
           bindE (normalize d (real_of_int (resolution_x r)) (real_of_int (resolution_y r)))
             (\<lambda>lab. Inr (all_data @ label_line repr lab)))"

fun label_objects ::
  "(real \<Rightarrow> string) \<Rightarrow> RenderSettings \<Rightarrow> Camera \<Rightarrow> Vector list list \<Rightarrow> string
     \<Rightarrow> error + string" where
  "label_objects repr r camera [] all_data = Inr all_data"
| "label_objects repr r camera (me # mes) all_data =
     (case label_object repr r camera me all_data of
        Inl e \<Rightarrow> Inl e
      | Inr s \<Rightarrow> label_objects repr r camera mes s)"

text \<open>The text written to the label file of one frame (lines 327 to 344).\<close>

definition frame_labels ::
  "(real \<Rightarrow> string) \<Rightarrow> RenderSettings \<Rightarrow> Camera \<Rightarrow> Vector list list \<Rightarrow> error + string" where
  "frame_labels repr r camera mes = label_objects repr r camera mes []"

text \<open>\<open>str\<close> of an integer and \<open>str.zfill\<close>, for the name of the label file (line 341).\<close>

fun digits :: "nat \<Rightarrow> string" where
  "digits n =
     (if n < 10 then [''0123456789'' ! n]
      else digits (n div 10) @ [''0123456789'' ! (n mod 10)])"

declare digits.simps [simp del]

definition str_int :: "int \<Rightarrow> string" where
  "str_int i = (if i < 0 then CHR ''-'' # digits (nat (- i)) else digits (nat i))"

definition zfill :: "string \<Rightarrow> nat \<Rightarrow> string" where
  "zfill s width =
     (if width \<le> length s then s
      else case s of
        [] \<Rightarrow> replicate width CHR ''0''
      | c # cs \<Rightarrow>
          if c = CHR ''+'' \<or> c = CHR ''-''
          then c # replicate (width - length s) CHR ''0'' @ cs
          else replicate (width - length s) CHR ''0'' @ s)"

definition label_filename :: "int \<Rightarrow> string" where
  "label_filename frame_current = ''frame_'' @ zfill (str_int frame_current) 4 @ ''.txt''"

section \<open>Auxiliary facts\<close>

lemma bindE_Inl [simp]: "bindE (Inl e) f = Inl e"
  by (simp add: bindE_def)

lemma bindE_Inr [simp]: "bindE (Inr v) f = f v"
  by (simp add: bindE_def)

text \<open>On a non-empty list the builtins return the greatest and the least element.\<close>

lemma py_max_Max: "lx \<noteq> [] \<Longrightarrow> py_max lx = Inr (Max (set lx))"
  by (cases lx) (simp_all add: Max.set_eq_fold [symmetric])

lemma py_min_Min: "lx \<noteq> [] \<Longrightarrow> py_min lx = Inr (Min (set lx))"
  by (cases lx) (simp_all add: Min.set_eq_fold [symmetric])

lemma clamp_unit: "0 \<le> clamp v 0 1 \<and> clamp v 0 1 \<le> 1"
  by (simp add: clamp_def)

text \<open>Lines 123 to 146 in terms of the extremes of the two lists.\<close>

lemma view_box_unfold:
  assumes "lx \<noteq> []" and "ly \<noteq> []"
  shows "view_box r lx ly =
     (let fac = real_of_int (resolution_percentage r) * 0.01;
          dx = real_of_int (resolution_x r) * fac;
          dy = real_of_int (resolution_y r) * fac
      in if center_on_corner (clamp ((Max (set lx) + Min (set lx)) / 2) 0 1)
                             (clamp ((Max (set ly) + Min (set ly)) / 2) 0 1)
            \<or> straddles (Min (set lx)) (Max (set lx))
            \<or> straddles (Min (set ly)) (Max (set ly))
         then Inr \<lparr>min_x = 0, min_y = 0, max_x = 0, max_y = 0, dim_x = dx, dim_y = dy\<rparr>
         else Inr \<lparr>min_x = clamp (Min (set lx)) 0 1, min_y = clamp (Min (set ly)) 0 1,
                   max_x = clamp (Max (set lx)) 0 1, max_y = clamp (Max (set ly)) 0 1,
                   dim_x = dx, dim_y = dy\<rparr>)"
  using assms by (simp add: view_box_def py_max_Max py_min_Min Let_def)

lemma view_box_nonempty:
  assumes "view_box r lx ly = Inr b"
  shows "lx \<noteq> []" and "ly \<noteq> []"
proof -
  from assms show "lx \<noteq> []"
    by (cases lx) (simp_all add: view_box_def)
  from assms show "ly \<noteq> []"
    by (cases lx; cases ly) (simp_all add: view_box_def)
qed

lemma view_box_dims:
  assumes "view_box r lx ly = Inr b"
  shows "dim_x b = real_of_int (resolution_x r) * (real_of_int (resolution_percentage r) * 0.01)
       \<and> dim_y b = real_of_int (resolution_y r) * (real_of_int (resolution_percentage r) * 0.01)"
  using view_box_unfold [OF view_box_nonempty [OF assms], of r] assms
  by (auto simp add: Let_def split: if_splits)

text \<open>The box is inside the unit square and its corners are in order.\<close>

lemma view_box_ordered:
  assumes "view_box r lx ly = Inr b"
  shows "0 \<le> min_x b \<and> min_x b \<le> max_x b \<and> max_x b \<le> 1 \<and>
         0 \<le> min_y b \<and> min_y b \<le> max_y b \<and> max_y b \<le> 1"
proof -
  note ne = view_box_nonempty [OF assms]
  from ne have "Min (set lx) \<le> Max (set lx)" and "Min (set ly) \<le> Max (set ly)"
    by (simp_all add: Min_le_iff)
  then have "clamp (Min (set lx)) 0 1 \<le> clamp (Max (set lx)) 0 1"
    and "clamp (Min (set ly)) 0 1 \<le> clamp (Max (set ly)) 0 1"
    by (simp_all add: clamp_def)
  with view_box_unfold [OF ne, of r] assms clamp_unit show ?thesis
    by (auto simp add: Let_def split: if_splits)
qed

text \<open>A box that the function returns comes from \<open>view_box\<close> on some pair of lists.\<close>

lemma camera_view_bounds_2d_view_box:
  assumes "camera_view_bounds_2d r camera me = Inr (Some b)"
  shows "\<exists>lx ly. view_box r lx ly = Inr b"
proof (cases me)
  case Nil
  with assms show ?thesis
    by (simp add: camera_view_bounds_2d_def split: prod.splits)
next
  case (Cons v rest)
  with assms show ?thesis
    by (auto simp add: camera_view_bounds_2d_def bindE_def split: prod.splits sum.splits)
qed

lemma camera_view_bounds_2d_dims:
  assumes "camera_view_bounds_2d r camera me = Inr (Some b)"
  shows "dim_x b = real_of_int (resolution_x r) * (real_of_int (resolution_percentage r) * 0.01)
       \<and> dim_y b = real_of_int (resolution_y r) * (real_of_int (resolution_percentage r) * 0.01)"
  using camera_view_bounds_2d_view_box [OF assms] view_box_dims by blast

lemma nonzero_or_None_zero: "nonzero_or_None (0, 0, 0, 0) = None"
  by (simp add: nonzero_or_None_def count_nonzero_def)

lemma nonzero_or_None_other: "t \<noteq> (0, 0, 0, 0) \<Longrightarrow> nonzero_or_None t = Some t"
  by (cases t) (auto simp add: nonzero_or_None_def count_nonzero_def)

lemma to_tuple_nonzero_dims:
  "to_tuple b \<noteq> (0, 0, 0, 0) \<Longrightarrow> dim_x b \<noteq> 0 \<and> dim_y b \<noteq> 0"
  by (auto simp add: to_tuple_def Box_width_def Box_height_def split: if_splits)

lemmas eval_defs =
  camera_view_bounds_2d_def vec_neg_def project_vertex_def py_div_def view_box_def
  rescale_frame_def rescale_corner_def vec_div_def center_on_corner_def straddles_def
  clamp_def Let_def

section \<open>The projection and the extent of the mesh\<close>

text \<open>
  At depth zero under a perspective camera no division by the depth takes place: the
  frame is left as it is. The vertex puts two entries into each list, 0.5 and its
  fraction in the frame, unless the frame has no extent, in which case the division of
  line 118 or 119 raises.
\<close>

lemma project_vertex_zero_depth:
  assumes "vz co_local = 0" and "vx f2 \<noteq> vx f1" and "vy f1 \<noteq> vy f0"
  shows "project_vertex True (f0, f1, f2) lx ly co_local =
           Inr ((f0, f1, f2),
                lx @ [1 / 2, (vx co_local - vx f1) / (vx f2 - vx f1)],
                ly @ [1 / 2, (vy co_local - vy f0) / (vy f1 - vy f0)])"
  using assms by (simp add: project_vertex_def py_div_def Let_def)

text \<open>
  C7. The claim: a vertex at depth zero under a perspective camera is never divided
  by its depth, and its projected point is (0.5, 0.5). The first half holds
  (\<open>project_vertex_zero_depth\<close>); the second does not, because the branch of line 110
  has no \<open>continue\<close>. On the camera with the corners (0.5, 0.5, -1), (0.5, -0.5, -1),
  (-0.5, -0.5, -1), (-0.5, 0.5, -1) and the vertex (0.25, 0.25, 0) the lists are
  [0.5, 0.75] and [0.5, 0.75]: the box is (0.5, 0.5, 0.75, 0.75), not the single point
  (0.5, 0.5), and on a frame of 640 by 480 the pixel box (320, 120, 160, 120) is
  returned for an object that the claim makes a point of no extent.
\<close>

theorem zero_depth_two_points:
  "project_vertex True (Vector (- 1/2) (- 1/2) 1, Vector (- 1/2) (1/2) 1, Vector (1/2) (1/2) 1)
     [] [] (Vector (1/4) (1/4) 0)
     = Inr ((Vector (- 1/2) (- 1/2) 1, Vector (- 1/2) (1/2) 1, Vector (1/2) (1/2) 1),
            [1/2, 3/4], [1/2, 3/4])
   \<and> camera_view_bounds_2d
        \<lparr>resolution_x = 640, resolution_y = 480, resolution_percentage = 100\<rparr>
        \<lparr>type = PERSP,
          view_frame = (Vector (1/2) (1/2) (- 1), Vector (1/2) (- 1/2) (- 1),
                        Vector (- 1/2) (- 1/2) (- 1), Vector (- 1/2) (1/2) (- 1))\<rparr>
        [Vector (1/4) (1/4) 0]
      = Inr (Some \<lparr>min_x = 1/2, min_y = 1/2, max_x = 3/4, max_y = 3/4,
                    dim_x = 640, dim_y = 480\<rparr>)
   \<and> write_bounds_2d
        \<lparr>resolution_x = 640, resolution_y = 480, resolution_percentage = 100\<rparr>
        \<lparr>type = PERSP,
          view_frame = (Vector (1/2) (1/2) (- 1), Vector (1/2) (- 1/2) (- 1),
                        Vector (- 1/2) (- 1/2) (- 1), Vector (- 1/2) (1/2) (- 1))\<rparr>
        [Vector (1/4) (1/4) 0]
      = Inr (Some (320, 120, 160, 120))"
  by (simp add: eval_defs write_bounds_2d_def to_tuple_def Box_width_def Box_height_def
        Box_x_def Box_y_def nonzero_or_None_def count_nonzero_def)

text \<open>
  C1. The claim: one projected point per vertex, in order, and bounds over all the
  vertices of the mesh. The code returns inside the loop body, so its result is that
  of the mesh cut down to its first vertex. On an orthographic camera and the two
  vertices (-0.25, -0.25, -1) and (0.25, 0.25, -1), whose projections are (0.25, 0.25)
  and (0.75, 0.75), the box is the point (0.25, 0.25) and not the extent from 0.25 to
  0.75; its width is zero and the object gets no label.
\<close>

theorem first_vertex_only:
  "camera_view_bounds_2d r camera (v # rest) = camera_view_bounds_2d r camera [v]
   \<and> camera_view_bounds_2d
        \<lparr>resolution_x = 640, resolution_y = 480, resolution_percentage = 100\<rparr>
        \<lparr>type = ORTHO,
          view_frame = (Vector (1/2) (1/2) (- 1), Vector (1/2) (- 1/2) (- 1),
                        Vector (- 1/2) (- 1/2) (- 1), Vector (- 1/2) (1/2) (- 1))\<rparr>
        [Vector (- 1/4) (- 1/4) (- 1), Vector (1/4) (1/4) (- 1)]
      = Inr (Some \<lparr>min_x = 1/4, min_y = 1/4, max_x = 1/4, max_y = 1/4,
                    dim_x = 640, dim_y = 480\<rparr>)
   \<and> write_bounds_2d
        \<lparr>resolution_x = 640, resolution_y = 480, resolution_percentage = 100\<rparr>
        \<lparr>type = ORTHO,
          view_frame = (Vector (1/2) (1/2) (- 1), Vector (1/2) (- 1/2) (- 1),
                        Vector (- 1/2) (- 1/2) (- 1), Vector (- 1/2) (1/2) (- 1))\<rparr>
        [Vector (- 1/4) (- 1/4) (- 1), Vector (1/4) (1/4) (- 1)]
      = Inr None"
  by (simp add: eval_defs write_bounds_2d_def to_tuple_def Box_width_def
        nonzero_or_None_zero split: prod.splits)

text \<open>
  A consequence of the early return: unless the first vertex lies at depth zero under a
  perspective camera, the lists hold one point each, the box has no width, and the
  object is never labelled.
\<close>

lemma view_box_single_point:
  "\<exists>b. view_box r [u] [v] = Inr b \<and> to_tuple b = (0, 0, 0, 0)"
  by (simp add: view_box_def Let_def to_tuple_def Box_width_def)

lemma project_vertex_single_point:
  assumes "\<not> camera_persp \<or> vz co_local \<noteq> 0"
    and "project_vertex camera_persp fr [] [] co_local = Inr (fr1, lx1, ly1)"
  shows "\<exists>u v. lx1 = [u] \<and> ly1 = [v]"
  using assms
  by (auto simp add: project_vertex_def bindE_def py_div_def Let_def
        split: if_splits sum.splits prod.splits)

lemma first_vertex_off_plane_never_labelled:
  assumes "type camera = ORTHO \<or> vz v \<noteq> 0"
  shows "write_bounds_2d r camera (v # rest) = Inr None
         \<or> (\<exists>e. write_bounds_2d r camera (v # rest) = Inl e)"
proof -
  obtain c0 c1 c2 c3 where vf: "view_frame camera = (c0, c1, c2, c3)"
    by (cases "view_frame camera") auto
  let ?fr = "(vec_neg c0, vec_neg c1, vec_neg c2)"
  let ?p = "type camera \<noteq> ORTHO"
  show ?thesis
  proof (cases "project_vertex ?p ?fr [] [] v")
    case (Inl e)
    then show ?thesis
      by (simp add: write_bounds_2d_def camera_view_bounds_2d_def vf)
  next
    case (Inr st)
    obtain fr1 lx1 ly1 where st: "st = (fr1, lx1, ly1)"
      by (cases st) auto
    from assms have "\<not> ?p \<or> vz v \<noteq> 0" by auto
    from project_vertex_single_point [OF this Inr [unfolded st]]
    obtain u w where l: "lx1 = [u]" "ly1 = [w]" by blast
    from view_box_single_point [of r u w]
    obtain b where "view_box r [u] [w] = Inr b" "to_tuple b = (0, 0, 0, 0)" by blast
    with Inr st l show ?thesis
      by (simp add: write_bounds_2d_def camera_view_bounds_2d_def vf nonzero_or_None_zero)
  qed
qed

section \<open>The rules that suppress a box\<close>

text \<open>
  C2. Whenever the accumulated u-extent straddles the frame (least u at most 0 and
  greatest u at least 1), or the v-extent does, the box has all four bounds zero; in
  particular an extent from exactly 0 to exactly 1 in u is suppressed whatever the
  v-extent is; and when none of the three rules fires, each of the four bounds is
  the clamped extreme of its list and lies in [0, 1].
\<close>

theorem view_box_rules:
  assumes "lx \<noteq> []" and "ly \<noteq> []"
  shows
    "((Min (set lx) \<le> 0 \<and> 1 \<le> Max (set lx)) \<or> (Min (set ly) \<le> 0 \<and> 1 \<le> Max (set ly))
        \<longrightarrow> (\<exists>b. view_box r lx ly = Inr b \<and>
                 min_x b = 0 \<and> min_y b = 0 \<and> max_x b = 0 \<and> max_y b = 0))
     \<and> (Min (set lx) = 0 \<and> Max (set lx) = 1
        \<longrightarrow> (\<exists>b. view_box r lx ly = Inr b \<and>
                 min_x b = 0 \<and> min_y b = 0 \<and> max_x b = 0 \<and> max_y b = 0))
     \<and> (\<not> center_on_corner (clamp ((Max (set lx) + Min (set lx)) / 2) 0 1)
                            (clamp ((Max (set ly) + Min (set ly)) / 2) 0 1)
        \<and> \<not> (Min (set lx) \<le> 0 \<and> 1 \<le> Max (set lx))
        \<and> \<not> (Min (set ly) \<le> 0 \<and> 1 \<le> Max (set ly))
        \<longrightarrow> (\<exists>b. view_box r lx ly = Inr b \<and>
                 min_x b = clamp (Min (set lx)) 0 1 \<and> max_x b = clamp (Max (set lx)) 0 1 \<and>
                 min_y b = clamp (Min (set ly)) 0 1 \<and> max_y b = clamp (Max (set ly)) 0 1 \<and>
                 0 \<le> min_x b \<and> min_x b \<le> 1 \<and> 0 \<le> max_x b \<and> max_x b \<le> 1 \<and>
                 0 \<le> min_y b \<and> min_y b \<le> 1 \<and> 0 \<le> max_y b \<and> max_y b \<le> 1))"
  by (simp add: view_box_unfold [OF assms] straddles_def Let_def clamp_unit)

text \<open>
  The lists [0, 1] and [0.4, 0.6] straddle the frame in u and give the zero box; the
  lists [0.2, 0.3] and [0.4, 0.6] trigger no rule and give the box of their extremes.
\<close>

theorem view_box_rules_witness:
  "(\<exists>b. view_box \<lparr>resolution_x = 640, resolution_y = 480, resolution_percentage = 100\<rparr>
          [0, 1] [2/5, 3/5] = Inr b \<and>
        min_x b = 0 \<and> min_y b = 0 \<and> max_x b = 0 \<and> max_y b = 0)
   \<and> (\<exists>b. view_box \<lparr>resolution_x = 640, resolution_y = 480, resolution_percentage = 100\<rparr>
          [1/5, 3/10] [2/5, 3/5] = Inr b \<and>
        min_x b = 1/5 \<and> max_x b = 3/10 \<and> min_y b = 2/5 \<and> max_y b = 3/5)"
  using view_box_rules [of "[0, 1]" "[2/5, 3/5]"
          "\<lparr>resolution_x = 640, resolution_y = 480, resolution_percentage = 100\<rparr>"]
        view_box_rules [of "[1/5, 3/10]" "[2/5, 3/5]"
          "\<lparr>resolution_x = 640, resolution_y = 480, resolution_percentage = 100\<rparr>"]
  by (auto simp add: center_on_corner_def clamp_def)

text \<open>
  C3, as amended. The test of line 127 is true exactly when the clamped centre is one
  of the four corners (0, 0), (0, 1), (1, 0), (1, 1) of the unit square, not only at
  (0, 0) and (1, 1). Whenever the centre is such a corner the box has all four bounds
  zero, so a centre of (1, 1) is suppressed; and when neither extent straddles the
  frame the box is the zero box for no other centre: it is then the box of the
  clamped extremes, which is not the zero box.
\<close>

theorem corner_rule:
  assumes "lx \<noteq> []" and "ly \<noteq> []"
  shows "((clamp ((Max (set lx) + Min (set lx)) / 2) 0 1 = 0 \<or>
           clamp ((Max (set lx) + Min (set lx)) / 2) 0 1 = 1) \<and>
          (clamp ((Max (set ly) + Min (set ly)) / 2) 0 1 = 0 \<or>
           clamp ((Max (set ly) + Min (set ly)) / 2) 0 1 = 1)
            \<longrightarrow> (\<exists>b. view_box r lx ly = Inr b \<and>
                     min_x b = 0 \<and> min_y b = 0 \<and> max_x b = 0 \<and> max_y b = 0))
         \<and> (\<not> (Min (set lx) \<le> 0 \<and> 1 \<le> Max (set lx)) \<and>
            \<not> (Min (set ly) \<le> 0 \<and> 1 \<le> Max (set ly))
            \<longrightarrow>
              ((\<exists>b. view_box r lx ly = Inr b \<and>
                    min_x b = 0 \<and> min_y b = 0 \<and> max_x b = 0 \<and> max_y b = 0)
               \<longleftrightarrow>
               (clamp ((Max (set lx) + Min (set lx)) / 2) 0 1 = 0 \<or>
                clamp ((Max (set lx) + Min (set lx)) / 2) 0 1 = 1) \<and>
               (clamp ((Max (set ly) + Min (set ly)) / 2) 0 1 = 0 \<or>
                clamp ((Max (set ly) + Min (set ly)) / 2) 0 1 = 1)))
         \<and> (\<not> (Min (set lx) \<le> 0 \<and> 1 \<le> Max (set lx)) \<and>
            \<not> (Min (set ly) \<le> 0 \<and> 1 \<le> Max (set ly)) \<and>
            \<not> ((clamp ((Max (set lx) + Min (set lx)) / 2) 0 1 = 0 \<or>
                 clamp ((Max (set lx) + Min (set lx)) / 2) 0 1 = 1) \<and>
                (clamp ((Max (set ly) + Min (set ly)) / 2) 0 1 = 0 \<or>
                 clamp ((Max (set ly) + Min (set ly)) / 2) 0 1 = 1))
            \<longrightarrow> (\<exists>b. view_box r lx ly = Inr b \<and>
                     min_x b = clamp (Min (set lx)) 0 1 \<and> max_x b = clamp (Max (set lx)) 0 1 \<and>
                     min_y b = clamp (Min (set ly)) 0 1 \<and> max_y b = clamp (Max (set ly)) 0 1 \<and>
                     \<not> (min_x b = 0 \<and> min_y b = 0 \<and> max_x b = 0 \<and> max_y b = 0)))"
proof -
  let ?cx = "clamp ((Max (set lx) + Min (set lx)) / 2) 0 1"
  let ?cy = "clamp ((Max (set ly) + Min (set ly)) / 2) 0 1"
  note u = view_box_unfold [OF assms, of r]
  from assms have le: "Min (set lx) \<le> Max (set lx)" "Min (set ly) \<le> Max (set ly)"
    by (simp_all add: Min_le_iff)
  have zx: "?cx = 0" if "clamp (Max (set lx)) 0 1 = 0"
    using that le(1) by (auto simp add: clamp_def max_def min_def split: if_splits)
  have zy: "?cy = 0" if "clamp (Max (set ly)) 0 1 = 0"
    using that le(2) by (auto simp add: clamp_def max_def min_def split: if_splits)
  have a: "(?cx = 0 \<or> ?cx = 1) \<and> (?cy = 0 \<or> ?cy = 1)
      \<longrightarrow> (\<exists>b. view_box r lx ly = Inr b \<and>
               min_x b = 0 \<and> min_y b = 0 \<and> max_x b = 0 \<and> max_y b = 0)"
    by (auto simp add: u center_on_corner_def Let_def)
  have c: "\<not> (Min (set lx) \<le> 0 \<and> 1 \<le> Max (set lx)) \<and>
           \<not> (Min (set ly) \<le> 0 \<and> 1 \<le> Max (set ly)) \<and>
           \<not> ((?cx = 0 \<or> ?cx = 1) \<and> (?cy = 0 \<or> ?cy = 1))
      \<longrightarrow> (\<exists>b. view_box r lx ly = Inr b \<and>
               min_x b = clamp (Min (set lx)) 0 1 \<and> max_x b = clamp (Max (set lx)) 0 1 \<and>
               min_y b = clamp (Min (set ly)) 0 1 \<and> max_y b = clamp (Max (set ly)) 0 1 \<and>
               \<not> (min_x b = 0 \<and> min_y b = 0 \<and> max_x b = 0 \<and> max_y b = 0))"
  proof (intro impI)
    assume h: "\<not> (Min (set lx) \<le> 0 \<and> 1 \<le> Max (set lx)) \<and>
           \<not> (Min (set ly) \<le> 0 \<and> 1 \<le> Max (set ly)) \<and>
           \<not> ((?cx = 0 \<or> ?cx = 1) \<and> (?cy = 0 \<or> ?cy = 1))"
    then have nz: "\<not> (clamp (Max (set lx)) 0 1 = 0 \<and> clamp (Max (set ly)) 0 1 = 0)"
      using zx zy by blast
    from h have np: "\<not> (center_on_corner ?cx ?cy
                       \<or> straddles (Min (set lx)) (Max (set lx))
                       \<or> straddles (Min (set ly)) (Max (set ly)))"
      by (auto simp add: center_on_corner_def straddles_def)
    then have "view_box r lx ly =
        Inr \<lparr>min_x = clamp (Min (set lx)) 0 1, min_y = clamp (Min (set ly)) 0 1,
             max_x = clamp (Max (set lx)) 0 1, max_y = clamp (Max (set ly)) 0 1,
             dim_x = real_of_int (resolution_x r) * (real_of_int (resolution_percentage r) * 0.01),
             dim_y = real_of_int (resolution_y r) * (real_of_int (resolution_percentage r) * 0.01)\<rparr>"
      by (simp add: u Let_def)
    with nz show "\<exists>b. view_box r lx ly = Inr b \<and>
               min_x b = clamp (Min (set lx)) 0 1 \<and> max_x b = clamp (Max (set lx)) 0 1 \<and>
               min_y b = clamp (Min (set ly)) 0 1 \<and> max_y b = clamp (Max (set ly)) 0 1 \<and>
               \<not> (min_x b = 0 \<and> min_y b = 0 \<and> max_x b = 0 \<and> max_y b = 0)"
      by auto
  qed
  have b: "\<not> (Min (set lx) \<le> 0 \<and> 1 \<le> Max (set lx)) \<and>
           \<not> (Min (set ly) \<le> 0 \<and> 1 \<le> Max (set ly))
      \<longrightarrow> ((\<exists>b. view_box r lx ly = Inr b \<and>
                min_x b = 0 \<and> min_y b = 0 \<and> max_x b = 0 \<and> max_y b = 0)
           \<longleftrightarrow> (?cx = 0 \<or> ?cx = 1) \<and> (?cy = 0 \<or> ?cy = 1))"
    using a c by (cases "(?cx = 0 \<or> ?cx = 1) \<and> (?cy = 0 \<or> ?cy = 1)") auto
  from a b c show ?thesis by blast
qed

text \<open>
  The single points (1.5, 2) and (-1, 2) have the clamped centres (1, 1) and (0, 1) and
  give the zero box; the single point (-1, 0.5) has the centre (0, 0.5), which is on one
  boundary only, and its box (0, 0.5, 0, 0.5) is not the zero box.
\<close>

theorem corner_rule_witness:
  "(\<exists>b. view_box \<lparr>resolution_x = 640, resolution_y = 480, resolution_percentage = 100\<rparr>
          [3 / 2] [2] = Inr b \<and>
        min_x b = 0 \<and> min_y b = 0 \<and> max_x b = 0 \<and> max_y b = 0)
   \<and> (\<exists>b. view_box \<lparr>resolution_x = 640, resolution_y = 480, resolution_percentage = 100\<rparr>
          [- 1] [2] = Inr b \<and>
        min_x b = 0 \<and> min_y b = 0 \<and> max_x b = 0 \<and> max_y b = 0)
   \<and> \<not> (\<exists>b. view_box \<lparr>resolution_x = 640, resolution_y = 480, resolution_percentage = 100\<rparr>
          [- 1] [1 / 2] = Inr b \<and>
        min_x b = 0 \<and> min_y b = 0 \<and> max_x b = 0 \<and> max_y b = 0)
   \<and> (\<exists>b. view_box \<lparr>resolution_x = 640, resolution_y = 480, resolution_percentage = 100\<rparr>
          [- 1] [1 / 2] = Inr b \<and>
        min_x b = 0 \<and> max_x b = 0 \<and> min_y b = 1 / 2 \<and> max_y b = 1 / 2)"
  using corner_rule [of "[3 / 2]" "[2]"
          "\<lparr>resolution_x = 640, resolution_y = 480, resolution_percentage = 100\<rparr>"]
        corner_rule [of "[- 1]" "[2]"
          "\<lparr>resolution_x = 640, resolution_y = 480, resolution_percentage = 100\<rparr>"]
        corner_rule [of "[- 1]" "[1 / 2]"
          "\<lparr>resolution_x = 640, resolution_y = 480, resolution_percentage = 100\<rparr>"]
  by (auto simp add: clamp_def)

text \<open>
  C3 as stated fails: a single projected point (-1, 2) has the clamped centre (0, 1),
  which is neither (0, 0) nor (1, 1); the test of line 127 is true there, neither
  extent straddles the frame, and the box is the zero box.
\<close>

theorem corner_rule_counterexample:
  "clamp ((- 1 + - 1) / 2) 0 1 = 0 \<and> clamp ((2 + 2) / 2) 0 1 = 1 \<and>
   center_on_corner (clamp ((- 1 + - 1) / 2) 0 1) (clamp ((2 + 2) / 2) 0 1) \<and>
   \<not> straddles (- 1) (- 1) \<and> \<not> straddles 2 2 \<and>
   view_box \<lparr>resolution_x = 640, resolution_y = 480, resolution_percentage = 100\<rparr> [- 1] [2]
     = Inr \<lparr>min_x = 0, min_y = 0, max_x = 0, max_y = 0, dim_x = 640, dim_y = 480\<rparr> \<and>
   (0 :: real, 1 :: real) \<noteq> (0, 0) \<and> (0 :: real, 1 :: real) \<noteq> (1, 1)"
  by (simp add: view_box_def center_on_corner_def straddles_def clamp_def)

section \<open>Suppressed boxes and label lines\<close>

text \<open>
  What \<open>write_bounds_2d\<close> and the label loop do with a box that the function returns:
  when \<open>to_tuple\<close> is the all-zero tuple, \<open>write_bounds_2d\<close> returns \<open>None\<close> without
  an error and the label text of the frame is left as it is; when the tuple has a
  nonzero component, \<open>write_bounds_2d\<close> returns that tuple, \<open>normalize\<close> succeeds and
  exactly one label line is appended.
\<close>

lemma write_bounds_2d_of_box:
  assumes "camera_view_bounds_2d r camera me = Inr (Some b)"
  shows "(to_tuple b = (0, 0, 0, 0) \<longrightarrow>
            write_bounds_2d r camera me = Inr None \<and>
            label_object repr r camera me all_data = Inr all_data)
       \<and> (to_tuple b \<noteq> (0, 0, 0, 0) \<longrightarrow>
            write_bounds_2d r camera me = Inr (Some (to_tuple b)) \<and>
            (\<exists>lab. normalize (to_tuple b) (real_of_int (resolution_x r))
                     (real_of_int (resolution_y r)) = Inr lab \<and>
                   label_object repr r camera me all_data
                     = Inr (all_data @ label_line repr lab)))"
proof (intro conjI impI)
  assume z: "to_tuple b = (0, 0, 0, 0)"
  with assms show "write_bounds_2d r camera me = Inr None"
    by (simp add: write_bounds_2d_def nonzero_or_None_zero)
  then show "label_object repr r camera me all_data = Inr all_data"
    by (simp add: label_object_def)
next
  assume nz: "to_tuple b \<noteq> (0, 0, 0, 0)"
  with assms show w: "write_bounds_2d r camera me = Inr (Some (to_tuple b))"
    by (simp add: write_bounds_2d_def nonzero_or_None_other)
  from to_tuple_nonzero_dims [OF nz] camera_view_bounds_2d_dims [OF assms]
  have "resolution_x r \<noteq> 0" and "resolution_y r \<noteq> 0"
    by auto
  then show "\<exists>lab. normalize (to_tuple b) (real_of_int (resolution_x r))
                     (real_of_int (resolution_y r)) = Inr lab \<and>
                   label_object repr r camera me all_data
                     = Inr (all_data @ label_line repr lab)"
    by (cases "to_tuple b") (simp add: label_object_def w normalize_def)
qed

text \<open>
  C8. The claim: a box that fails the visibility rules gives \<open>None\<close> and no label
  line, without an error, a box that passes gives its tuple and one line, and an
  object whose projected extent runs from -0.2 to 1.3 in u is suppressed. The general
  part holds of the code (\<open>write_bounds_2d_of_box\<close>); the example does not. Under the
  perspective camera of C7 the mesh with the vertices (0.25, 0.25, 0), (-0.7, 0, -1)
  and (0.8, 0, -1) has vertices that project to u = -0.2 and u = 1.3, so its extent
  straddles the frame; the code reads the first vertex only (C1), takes two points
  from it (C7), and returns the pixel box (320, 120, 160, 120), for which one label
  line is written.
\<close>

theorem straddling_mesh_is_labelled:
  "project_vertex True (Vector (- 1/2) (- 1/2) 1, Vector (- 1/2) (1/2) 1, Vector (1/2) (1/2) 1)
     [] [] (Vector (- 7/10) 0 (- 1))
     = Inr ((Vector (- 1/2) (- 1/2) 1, Vector (- 1/2) (1/2) 1, Vector (1/2) (1/2) 1),
            [- 1/5], [1/2])
   \<and> project_vertex True (Vector (- 1/2) (- 1/2) 1, Vector (- 1/2) (1/2) 1, Vector (1/2) (1/2) 1)
     [] [] (Vector (4/5) 0 (- 1))
     = Inr ((Vector (- 1/2) (- 1/2) 1, Vector (- 1/2) (1/2) 1, Vector (1/2) (1/2) 1),
            [13/10], [1/2])
   \<and> write_bounds_2d
        \<lparr>resolution_x = 640, resolution_y = 480, resolution_percentage = 100\<rparr>
        \<lparr>type = PERSP,
          view_frame = (Vector (1/2) (1/2) (- 1), Vector (1/2) (- 1/2) (- 1),
                        Vector (- 1/2) (- 1/2) (- 1), Vector (- 1/2) (1/2) (- 1))\<rparr>
        [Vector (1/4) (1/4) 0, Vector (- 7/10) 0 (- 1), Vector (4/5) 0 (- 1)]
      = Inr (Some (320, 120, 160, 120))
   \<and> label_object repr
        \<lparr>resolution_x = 640, resolution_y = 480, resolution_percentage = 100\<rparr>
        \<lparr>type = PERSP,
          view_frame = (Vector (1/2) (1/2) (- 1), Vector (1/2) (- 1/2) (- 1),
                        Vector (- 1/2) (- 1/2) (- 1), Vector (- 1/2) (1/2) (- 1))\<rparr>
        [Vector (1/4) (1/4) 0, Vector (- 7/10) 0 (- 1), Vector (4/5) 0 (- 1)] all_data
      = Inr (all_data @ label_line repr (5/8, 3/8, 1/4, 1/4))"
  by (simp add: label_object_def normalize_def
        eval_defs write_bounds_2d_def to_tuple_def Box_width_def Box_height_def
        Box_x_def Box_y_def nonzero_or_None_def count_nonzero_def)

section \<open>The values of a label line\<close>

lemma scaled_fraction_unit:
  fixes q a c rx :: real
  assumes "0 < rx" and "0 \<le> q" and "q \<le> 1" and "0 \<le> a" and "a \<le> c" and "c \<le> 1"
  shows "0 \<le> (a * (rx * q) + (c - a) * (rx * q) / 2) / rx"
    and "(a * (rx * q) + (c - a) * (rx * q) / 2) / rx \<le> 1"
    and "0 \<le> (rx * q - c * (rx * q) + (c - a) * (rx * q) / 2) / rx"
    and "(rx * q - c * (rx * q) + (c - a) * (rx * q) / 2) / rx \<le> 1"
    and "0 \<le> (c - a) * (rx * q) / rx"
    and "(c - a) * (rx * q) / rx \<le> 1"
proof -
  from assms have e1: "(a * (rx * q) + (c - a) * (rx * q) / 2) / rx = q * ((a + c) / 2)"
    by (simp add: field_simps)
  from assms have e2: "(rx * q - c * (rx * q) + (c - a) * (rx * q) / 2) / rx
      = q * (1 - (a + c) / 2)"
    by (simp add: field_simps)
  from assms have e3: "(c - a) * (rx * q) / rx = q * (c - a)"
    by (simp add: field_simps)
  from assms have m: "0 \<le> (a + c) / 2" "(a + c) / 2 \<le> 1" "0 \<le> c - a" "c - a \<le> 1"
    by simp_all
  from m have m': "0 \<le> 1 - (a + c) / 2" "1 - (a + c) / 2 \<le> 1"
    by simp_all
  show "0 \<le> (a * (rx * q) + (c - a) * (rx * q) / 2) / rx"
    using assms m by (simp only: e1) (rule mult_nonneg_nonneg)
  show "(a * (rx * q) + (c - a) * (rx * q) / 2) / rx \<le> 1"
    using assms m by (simp only: e1) (rule mult_le_one)
  show "0 \<le> (rx * q - c * (rx * q) + (c - a) * (rx * q) / 2) / rx"
    using assms m' by (simp only: e2) (rule mult_nonneg_nonneg)
  show "(rx * q - c * (rx * q) + (c - a) * (rx * q) / 2) / rx \<le> 1"
    using assms m' by (simp only: e2) (rule mult_le_one)
  show "0 \<le> (c - a) * (rx * q) / rx"
    using assms m by (simp only: e3) (rule mult_nonneg_nonneg)
  show "(c - a) * (rx * q) / rx \<le> 1"
    using assms m by (simp only: e3) (rule mult_le_one)
qed

text \<open>
  The box is in pixels of the rendered image, whose size is the resolution times the
  resolution percentage (lines 143 to 145), while line 336 divides by the resolution
  alone. Up to 100 percent the four values of a label stay in [0, 1].
\<close>

lemma labels_in_unit_interval_up_to_100_percent:
  assumes cv: "camera_view_bounds_2d r camera me = Inr (Some b)"
    and res: "0 < resolution_x r" "0 < resolution_y r"
    and pct: "0 \<le> resolution_percentage r" "resolution_percentage r \<le> 100"
    and nz: "to_tuple b \<noteq> (0, 0, 0, 0)"
    and n: "normalize (to_tuple b) (real_of_int (resolution_x r)) (real_of_int (resolution_y r))
              = Inr (x_center, y_center, w, h)"
  shows "0 \<le> x_center \<and> x_center \<le> 1 \<and> 0 \<le> y_center \<and> y_center \<le> 1 \<and>
         0 \<le> w \<and> w \<le> 1 \<and> 0 \<le> h \<and> h \<le> 1"
proof -
  define q where "q = real_of_int (resolution_percentage r) * 0.01"
  define rx where "rx = real_of_int (resolution_x r)"
  define ry where "ry = real_of_int (resolution_y r)"
  from pct have q: "0 \<le> q" "q \<le> 1" by (simp_all add: q_def)
  from res have r: "0 < rx" "0 < ry" by (simp_all add: rx_def ry_def)
  from camera_view_bounds_2d_dims [OF cv] have d: "dim_x b = rx * q" "dim_y b = ry * q"
    by (simp_all add: q_def rx_def ry_def)
  from camera_view_bounds_2d_view_box [OF cv] obtain lx ly where "view_box r lx ly = Inr b"
    by blast
  from view_box_ordered [OF this]
  have o: "0 \<le> min_x b" "min_x b \<le> max_x b" "max_x b \<le> 1"
          "0 \<le> min_y b" "min_y b \<le> max_y b" "max_y b \<le> 1"
    by simp_all
  from n nz r have
    "x_center = (min_x b * (rx * q) + (max_x b - min_x b) * (rx * q) / 2) / rx"
    "y_center = (ry * q - max_y b * (ry * q) + (max_y b - min_y b) * (ry * q) / 2) / ry"
    "w = (max_x b - min_x b) * (rx * q) / rx"
    "h = (max_y b - min_y b) * (ry * q) / ry"
    by (simp_all add: normalize_def to_tuple_def Box_x_def Box_y_def Box_width_def
          Box_height_def d rx_def [symmetric] ry_def [symmetric] split: if_splits)
  with scaled_fraction_unit [OF r(1) q o(1-3)] scaled_fraction_unit [OF r(2) q o(4-6)]
  show ?thesis by simp
qed

text \<open>
  C9. The claim: every label line is \<open>0 x_center y_center width height\<close> with the four
  values in [0, 1]. The form of the line holds, the range does not: with a resolution
  of 100 by 100 at 200 percent the rendered frame is 200 by 200 pixels, the object
  with the single vertex (0.25, 0.25, 0) under the perspective camera of C7 has the
  pixel box (100, 50, 50, 50), and the line written carries \<open>x_center = 1.25\<close>.
\<close>

theorem label_values_exceed_one:
  "frame_labels repr
     \<lparr>resolution_x = 100, resolution_y = 100, resolution_percentage = 200\<rparr>
     \<lparr>type = PERSP,
       view_frame = (Vector (1/2) (1/2) (- 1), Vector (1/2) (- 1/2) (- 1),
                     Vector (- 1/2) (- 1/2) (- 1), Vector (- 1/2) (1/2) (- 1))\<rparr>
     [[Vector (1/4) (1/4) 0]]
     = Inr (label_line repr (5/4, 3/4, 1/2, 1/2))
   \<and> label_line repr (5/4, 3/4, 1/2, 1/2)
       = ''0 '' @ repr (5/4) @ '' '' @ repr (3/4) @ '' '' @ repr (1/2) @ '' '' @ repr (1/2)
           @ [CHR 0x0A]
   \<and> (1 :: real) < 5/4"
  by (simp add: frame_labels_def label_object_def label_line_def normalize_def
        eval_defs write_bounds_2d_def to_tuple_def Box_width_def Box_height_def
        Box_x_def Box_y_def nonzero_or_None_def count_nonzero_def)

subsection \<open>The name of the label file\<close>

lemma digits_chars: "set (digits n) \<subseteq> set ''0123456789''"
proof (induction n rule: digits.induct)
  case (1 n)
  have m: "''0123456789'' ! (n mod 10) \<in> set ''0123456789''"
    by (rule nth_mem) simp
  show ?case
  proof (cases "n < 10")
    case True
    then have "''0123456789'' ! n \<in> set ''0123456789''"
      by (intro nth_mem) simp
    with True show ?thesis
      by (subst digits.simps) simp
  next
    case False
    with 1 m show ?thesis
      by (subst digits.simps) simp
  qed
qed

lemma digits_nonempty: "digits n \<noteq> []"
  by (subst digits.simps) simp

lemma length_digits_small: "n < 10000 \<Longrightarrow> length (digits n) \<le> 4"
  by (subst digits.simps, subst digits.simps, subst digits.simps, subst digits.simps)
     simp

text \<open>For a frame index from 0 to 9999 the file name carries exactly four digits.\<close>

lemma label_filename_four_digits:
  assumes "0 \<le> i" and "i < 10000"
  shows "\<exists>ds. label_filename i = ''frame_'' @ ds @ ''.txt'' \<and> length ds = 4 \<and>
              set ds \<subseteq> set ''0123456789''"
proof -
  define s where "s = digits (nat i)"
  from assms have len: "length s \<le> 4"
    unfolding s_def by (intro length_digits_small) simp
  have chars: "set s \<subseteq> set ''0123456789''"
    unfolding s_def by (rule digits_chars)
  have ne: "s \<noteq> []"
    unfolding s_def by (rule digits_nonempty)
  then obtain c cs where cs: "s = c # cs"
    by (cases s) auto
  with chars have "c \<in> set ''0123456789''" by simp
  then have sign: "c \<noteq> CHR ''+''" "c \<noteq> CHR ''-''" by auto
  have z: "zfill s 4 = replicate (4 - length s) CHR ''0'' @ s"
    using len sign cs by (auto simp add: zfill_def)
  have "length (zfill s 4) = 4"
    using len by (simp add: z)
  moreover have "set (zfill s 4) \<subseteq> set ''0123456789''"
    using chars by (auto simp add: z)
  moreover have "label_filename i = ''frame_'' @ zfill s 4 @ ''.txt''"
    using assms by (simp add: label_filename_def str_int_def s_def)
  ultimately show ?thesis by blast
qed

lemma label_filename_examples:
  "label_filename 7 = ''frame_0007.txt'' \<and> label_filename 15 = ''frame_0015.txt''"
  by code_simp

text \<open>
  Outside that range \<open>zfill\<close> pads to at least four characters, the sign included:
  frame 10000 has five digits and frame -5 has three digits after its sign.
\<close>

lemma label_filename_out_of_range:
  "label_filename 10000 = ''frame_10000.txt'' \<and> label_filename (- 5) = ''frame_-005.txt''"
proof -
  have d5: "digits 5 = ''5''"
    by (simp add: digits.simps [of 5])
  have d1: "digits (Suc 0) = ''1''"
    by (simp add: digits.simps [of "Suc 0"])
  have d10: "digits 10 = ''10''"
    by (simp add: digits.simps [of 10] d1)
  have d100: "digits 100 = ''100''"
    by (simp add: digits.simps [of 100] d10)
  have d1000: "digits 1000 = ''1000''"
    by (simp add: digits.simps [of 1000] d100)
  have d10000: "digits 10000 = ''10000''"
    by (simp add: digits.simps [of 10000] d1000)
  show ?thesis
    by (simp add: label_filename_def str_int_def zfill_def d5 d10000 numeral_2_eq_2)
qed

section \<open>The class Box and the label encoder\<close>

text \<open>
  C4. For every Box the pixel properties are \<open>x = min_x * dim_x\<close>,
  \<open>y = dim_y - max_y * dim_y\<close>, \<open>width = (max_x - min_x) * dim_x\<close> and
  \<open>height = (max_y - min_y) * dim_y\<close>; \<open>to_tuple\<close> returns the all-zero tuple when
  the pixel width or the pixel height is zero, and \<open>(x, y, width, height)\<close> otherwise.
\<close>

theorem Box_pixel_properties:
  "Box_x b = min_x b * dim_x b \<and>
   Box_y b = dim_y b - max_y b * dim_y b \<and>
   Box_width b = (max_x b - min_x b) * dim_x b \<and>
   Box_height b = (max_y b - min_y b) * dim_y b \<and>
   to_tuple b =
     (if (max_x b - min_x b) * dim_x b = 0 \<or> (max_y b - min_y b) * dim_y b = 0
      then (0, 0, 0, 0)
      else (min_x b * dim_x b, dim_y b - max_y b * dim_y b,
            (max_x b - min_x b) * dim_x b, (max_y b - min_y b) * dim_y b))"
  by (simp add: Box_x_def Box_y_def Box_width_def Box_height_def to_tuple_def)

text \<open>
  C10. A Box whose four bounds are zero and whose dimensions are positive has
  \<open>x = 0\<close>, \<open>width = 0\<close> and \<open>height = 0\<close>, but \<open>y = dim_y\<close>, which is not zero;
  \<open>to_tuple\<close> returns the all-zero tuple all the same, so the nonzero \<open>y\<close> of a
  suppressed box is never handed on.
\<close>

theorem zero_box_sentinel:
  assumes "min_x b = 0" and "min_y b = 0" and "max_x b = 0" and "max_y b = 0"
    and "0 < dim_x b" and "0 < dim_y b"
  shows "Box_x b = 0 \<and> Box_width b = 0 \<and> Box_height b = 0 \<and>
         Box_y b = dim_y b \<and> Box_y b \<noteq> 0 \<and> to_tuple b = (0, 0, 0, 0)"
  using assms by (simp add: Box_x_def Box_y_def Box_width_def Box_height_def to_tuple_def)

theorem zero_box_sentinel_witness:
  "Box_y \<lparr>min_x = 0, min_y = 0, max_x = 0, max_y = 0, dim_x = 640, dim_y = 480\<rparr> = 480 \<and>
   to_tuple \<lparr>min_x = 0, min_y = 0, max_x = 0, max_y = 0, dim_x = 640, dim_y = 480\<rparr>
     = (0, 0, 0, 0)"
  using zero_box_sentinel
    [of "\<lparr>min_x = 0, min_y = 0, max_x = 0, max_y = 0, dim_x = 640, dim_y = 480\<rparr>"]
  by simp

text \<open>
  C5. For positive frame dimensions \<open>normalize\<close> returns
  \<open>(x + width/2) / frame_width\<close>, \<open>(y + height/2) / frame_height\<close>,
  \<open>width / frame_width\<close> and \<open>height / frame_height\<close>, unclamped; the pixel box
  (100, 50, 40, 20) on a frame of 640 by 480 gives 0.1875, 0.125, 0.0625 and 20/480,
  which is 0.0417 to the four decimal places of the scenario.
\<close>

theorem normalize_formula:
  assumes "0 < frame_width" and "0 < frame_height"
  shows "normalize (x, y, w, h) frame_width frame_height =
           Inr ((x + w / 2) / frame_width, (y + h / 2) / frame_height,
                w / frame_width, h / frame_height)
         \<and> normalize (100, 50, 40, 20) 640 480 = Inr (0.1875, 0.125, 0.0625, 20 / 480)
         \<and> \<bar>20 / 480 - 0.0417\<bar> < (0.00005 :: real)
         \<and> round ((20 / 480 :: real) * 10000) = 417"
  using assms by (simp add: normalize_def round_def)

theorem normalize_formula_witness:
  "normalize (320, 120, 160, 120) 640 480 = Inr (5 / 8, 3 / 8, 1 / 4, 1 / 4)"
  using normalize_formula [of 640 480 320 120 160 120] by simp

text \<open>
  C6. For a pixel box of positive width and height and positive frame dimensions,
  \<open>normalize\<close> followed by the inverse (every value times its frame dimension, the
  corner taken back from the centre) gives the pixel box back, exactly.
\<close>

theorem normalize_round_trip:
  assumes "0 < w" and "0 < h" and "0 < frame_width" and "0 < frame_height"
  shows "\<exists>lab. normalize (x, y, w, h) frame_width frame_height = Inr lab \<and>
               denormalize lab frame_width frame_height = (x, y, w, h)"
  using assms by (simp add: normalize_def denormalize_def field_simps)

theorem normalize_round_trip_witness:
  "\<exists>lab. normalize (100, 50, 40, 20) 640 480 = Inr lab \<and>
         denormalize lab 640 480 = (100, 50, 40, 20)"
  using normalize_round_trip [of 40 20 640 480 100 50] by simp

end
